theory Spec2Isabelle
  imports
    Complex_Main
    "HOL-Library.Char_ord"
    "HOL-Library.List_Lexorder"
    "HOL-Library.Multiset"
    "HOL-Library.AList"
    "HOL-Library.Log_Nat"
begin

section \<open>Decimal arithmetic of the accounting engine\<close>

text \<open>
  The engine of \<^verbatim>\<open>portfolio_dca.py\<close> accumulates in Python's \<^verbatim>\<open>Decimal\<close> under the
  default context: every sum, difference, product and quotient is the exact result
  rounded to 28 significant digits, ties to even. A finite \<^verbatim>\<open>Decimal\<close> is represented
  here by its numeric value, a rational; comparisons and every later use depend on
  nothing else. The exponent limits of the context and the special values (infinities,
  NaN) are not represented.
\<close>

type_synonym decimal = rat

text \<open>The number of decimal digits of a positive integer.\<close>

function ndigits :: "int \<Rightarrow> nat" where
  "ndigits n = (if n < 10 then 1 else Suc (ndigits (n div 10)))"
  by pat_completeness auto
termination
  by (relation "measure nat") auto

declare ndigits.simps [simp del]

text \<open>The exponent of the leading digit of a non-zero value: \<open>10 ^ e \<le> \<bar>x\<bar> < 10 ^ (e + 1)\<close>.\<close>

definition adjusted :: "rat \<Rightarrow> int" where
  "adjusted x =
     (let (p, q) = quotient_of \<bar>x\<bar>;
          d = int (ndigits p) - int (ndigits q)
      in if of_int q * power_int 10 d \<le> (of_int p :: rat) then d else d - 1)"

definition round_half_even :: "rat \<Rightarrow> int" where
  "round_half_even y =
     (let f = \<lfloor>y\<rfloor>; d = y - of_int f
      in if d < 1 / 2 then f
         else if 1 / 2 < d then f + 1
         else if even f then f else f + 1)"

text \<open>Rounding to the context precision \<^verbatim>\<open>prec = 28\<close> with \<^verbatim>\<open>ROUND_HALF_EVEN\<close>.\<close>

definition quantize :: "rat \<Rightarrow> decimal" where
  "quantize x =
     (if x = 0 then 0
      else let s = power_int 10 (adjusted x - 27)
           in sgn x * (of_int (round_half_even (\<bar>x\<bar> / s)) * s))"

definition dec_add :: "decimal \<Rightarrow> decimal \<Rightarrow> decimal" where
  "dec_add a b = quantize (a + b)"

definition dec_sub :: "decimal \<Rightarrow> decimal \<Rightarrow> decimal" where
  "dec_sub a b = quantize (a - b)"

definition dec_mul :: "decimal \<Rightarrow> decimal \<Rightarrow> decimal" where
  "dec_mul a b = quantize (a * b)"

text \<open>Only called with a positive divisor (the source guards the one division).\<close>

definition dec_div :: "decimal \<Rightarrow> decimal \<Rightarrow> decimal" where
  "dec_div a b = quantize (a / b)"

section \<open>Binary floating point\<close>

text \<open>
  Every value the engine returns goes through \<^verbatim>\<open>float(...)\<close>, and the valuation works on
  floats. A finite Python \<^verbatim>\<open>float\<close> (an IEEE 754 binary64 number) is represented by its
  exact value, a rational. \<open>py_float\<close> is \<^verbatim>\<open>float\<close> applied to a \<^verbatim>\<open>Decimal\<close>: the nearest
  binary64 number, ties to even, with 53 significant bits down to the exponent -1022 and
  the fixed spacing \<open>2\<^sup>-\<^sup>1\<^sup>0\<^sup>7\<^sup>4\<close> below it. The four operations on floats are the exact
  results rounded the same way. Overflow to infinity is not represented.
\<close>

text \<open>The binary exponent of a non-zero value: \<open>2 ^ e \<le> \<bar>x\<bar> < 2 ^ (e + 1)\<close>.\<close>

definition expoente2 :: "rat \<Rightarrow> int" where
  "expoente2 x =
     (let (p, q) = quotient_of \<bar>x\<bar>; d = bitlen p - bitlen q
      in if of_int q * power_int 2 d \<le> (of_int p :: rat) then d else d - 1)"

definition py_float :: "rat \<Rightarrow> rat" where
  "py_float x =
     (if x = 0 then 0
      else let u = power_int 2 (max (expoente2 x) (- 1022) - 52)
           in sgn x * (of_int (round_half_even (\<bar>x\<bar> / u)) * u))"

definition float_add :: "rat \<Rightarrow> rat \<Rightarrow> rat" where
  "float_add a b = py_float (a + b)"

definition float_sub :: "rat \<Rightarrow> rat \<Rightarrow> rat" where
  "float_sub a b = py_float (a - b)"

definition float_mul :: "rat \<Rightarrow> rat \<Rightarrow> rat" where
  "float_mul a b = py_float (a * b)"

text \<open>Only called with a positive divisor (the source guards the one division).\<close>

definition float_div :: "rat \<Rightarrow> rat \<Rightarrow> rat" where
  "float_div a b = py_float (a / b)"

section \<open>Records of the operations file\<close>

text \<open>
  A cell of a numeric column, as the converter applied to it sees it: \<open>Vazia\<close> is a
  missing value (\<^verbatim>\<open>None\<close> of a short row) or the empty string, \<open>Invalida\<close> a non-empty
  text the converter rejects, \<open>Numero r\<close> a text it accepts, with the decimal value of
  the result (for \<^verbatim>\<open>float\<close>, the decimal that \<^verbatim>\<open>str\<close> prints for the float obtained). The
  converter is \<^verbatim>\<open>float\<close> for \<^verbatim>\<open>Quantidade\<close> and \<^verbatim>\<open>Valor_USDT\<close> (in \<^verbatim>\<open>carregar_operacoes\<close>)
  and \<^verbatim>\<open>Decimal\<close> for \<^verbatim>\<open>Preco\<close> (in \<^verbatim>\<open>_analisar_moeda\<close>). The header row of the file names
  all six columns (\<^verbatim>\<open>criar_arquivo_se_necessario\<close>), so every key is present.
\<close>

datatype celula = Vazia | Invalida | Numero rat

text \<open>A row as \<^verbatim>\<open>csv.DictReader\<close> yields it.\<close>

record linha =
  linha_Data :: "string option"
  linha_Moeda :: "string option"
  linha_Operacao :: "string option"
  linha_Valor_USDT :: celula
  linha_Preco :: celula
  linha_Quantidade :: celula

text \<open>
  A row after \<^verbatim>\<open>carregar_operacoes\<close>: the amount and the quantity have been replaced by
  floats, the three texts are non-empty, and the price is the cell of the file, untouched.
  The engine reads the two floats only through \<^verbatim>\<open>Decimal(str(x))\<close>, the decimal that
  \<^verbatim>\<open>str\<close> prints for the float: the fields \<open>Valor_USDT\<close> and \<open>Quantidade\<close> hold that
  decimal (0.1 for the float \<^verbatim>\<open>0.1\<close>), so the conversion is the identity on them.
\<close>

record operacao =
  Data :: string
  Moeda :: string
  Operacao :: string
  Valor_USDT :: rat
  Preco :: celula
  Quantidade :: rat

text \<open>\<^verbatim>\<open>str.lower\<close> on the letters that matter for the comparison with two ASCII words.\<close>

definition lower :: "string \<Rightarrow> string" where
  "lower s =
     map (\<lambda>c. if CHR ''A'' \<le> c \<and> c \<le> CHR ''Z'' then char_of (of_char c + (32::nat)) else c) s"

definition presente :: "string option \<Rightarrow> bool" where
  "presente v = (case v of None \<Rightarrow> False | Some s \<Rightarrow> s \<noteq> [])"

text \<open>
  The body of the \<^verbatim>\<open>try\<close> block: \<open>None\<close> when it raises and the row is skipped. The
  required fields are \<^verbatim>\<open>Data\<close>, \<^verbatim>\<open>Moeda\<close>, \<^verbatim>\<open>Operacao\<close>, \<^verbatim>\<open>Quantidade\<close> and \<^verbatim>\<open>Valor_USDT\<close>;
  \<^verbatim>\<open>float\<close> is applied to the last two; the operation is compared in lower case and
  stored as it is. The price is neither required nor converted.
\<close>

definition validar_linha :: "linha \<Rightarrow> operacao option" where
  "validar_linha l =
     (if presente (linha_Data l) \<and> presente (linha_Moeda l) \<and> presente (linha_Operacao l)
         \<and> linha_Quantidade l \<noteq> Vazia \<and> linha_Valor_USDT l \<noteq> Vazia
      then
        (case linha_Quantidade l of
           Numero q \<Rightarrow>
             (case linha_Valor_USDT l of
                Numero v \<Rightarrow>
                  (if lower (the (linha_Operacao l)) \<in> set [''compra'', ''venda'']
                   then Some \<lparr>Data = the (linha_Data l), Moeda = the (linha_Moeda l),
                              Operacao = the (linha_Operacao l), Valor_USDT = v,
                              Preco = linha_Preco l, Quantidade = q\<rparr>
                   else None)
              | _ \<Rightarrow> None)
         | _ \<Rightarrow> None)
      else None)"

definition carregar_operacoes :: "linha list \<Rightarrow> operacao list" where
  "carregar_operacoes linhas = List.map_filter validar_linha linhas"

section \<open>Ledger replay: \<^verbatim>\<open>calcular_saldo_usdt\<close>\<close>

text \<open>
  An entry of \<^verbatim>\<open>historico_movimentacao\<close>. The key \<^verbatim>\<open>moeda\<close> exists only in the two crypto
  kinds. The value and the resulting balance are floats. The formatted text \<^verbatim>\<open>descricao\<close>
  is derived from the other fields and left out.
\<close>

record movimento =
  mov_data :: string
  mov_tipo :: string
  mov_moeda :: "string option"
  mov_valor :: rat
  mov_saldo_apos :: rat

record saldo_info =
  saldo_atual :: rat
  historico :: "movimento list"

text \<open>The body of the loop, on the pair of \<^verbatim>\<open>saldo_usdt\<close> and \<^verbatim>\<open>historico_movimentacao\<close>.\<close>

definition registrar :: "decimal \<times> movimento list \<Rightarrow> operacao \<Rightarrow> decimal \<times> movimento list" where
  "registrar st op =
     (let saldo_usdt = fst st; historico_movimentacao = snd st;
          valor_usdt = Valor_USDT op; moeda = Moeda op; tipo = Operacao op
      in if moeda = ''USDT'' then
           (if tipo = ''compra'' then
              (let saldo = dec_add saldo_usdt valor_usdt
               in (saldo, historico_movimentacao @
                     [\<lparr>mov_data = Data op, mov_tipo = ''deposito_usdt'', mov_moeda = None,
                       mov_valor = py_float valor_usdt,
                       mov_saldo_apos = py_float saldo\<rparr>]))
            else if tipo = ''venda'' then
              (let saldo = dec_sub saldo_usdt valor_usdt
               in (saldo, historico_movimentacao @
                     [\<lparr>mov_data = Data op, mov_tipo = ''saque_usdt'', mov_moeda = None,
                       mov_valor = py_float valor_usdt,
                       mov_saldo_apos = py_float saldo\<rparr>]))
            else st)
         else
           (if tipo = ''compra'' then
              (let saldo = dec_sub saldo_usdt valor_usdt
               in (saldo, historico_movimentacao @
                     [\<lparr>mov_data = Data op, mov_tipo = ''compra_crypto'', mov_moeda = Some moeda,
                       mov_valor = py_float valor_usdt,
                       mov_saldo_apos = py_float saldo\<rparr>]))
            else if tipo = ''venda'' then
              (let saldo = dec_add saldo_usdt valor_usdt
               in (saldo, historico_movimentacao @
                     [\<lparr>mov_data = Data op, mov_tipo = ''venda_crypto'', mov_moeda = Some moeda,
                       mov_valor = py_float valor_usdt,
                       mov_saldo_apos = py_float saldo\<rparr>]))
            else st))"

text \<open>
  \<^verbatim>\<open>sorted(operacoes, key=lambda x: x['Data'])\<close>: a stable sort on the timestamp text.
  The list parameter \<^verbatim>\<open>operacoes\<close> of the source is called \<open>registros\<close> throughout, the
  name \<open>operacoes\<close> being a key of the snapshot below.
\<close>

definition ordenar :: "operacao list \<Rightarrow> operacao list" where
  "ordenar registros = sort_key Data registros"

definition calcular_saldo_usdt :: "operacao list \<Rightarrow> saldo_info" where
  "calcular_saldo_usdt registros =
     (let st = foldl registrar (0, []) (ordenar registros)
      in \<lparr>saldo_atual = py_float (fst st), historico = snd st\<rparr>)"

section \<open>Position accounting: \<^verbatim>\<open>_analisar_moeda\<close>\<close>

datatype erro = InvalidOperation

text \<open>
  The last key of an entry of \<^verbatim>\<open>operacoes_processadas\<close>: \<^verbatim>\<open>pmc_apos\<close> of a buy, \<^verbatim>\<open>lucro\<close> of
  an accepted sell, or \<^verbatim>\<open>erro\<close> of a rejected one, whose only text is
  "Venda sem posicao previa".
\<close>

datatype anotacao = Pmc_apos rat | Lucro rat | Erro_venda_sem_posicao

record processada =
  proc_tipo :: string
  proc_data :: string
  proc_quantidade :: rat
  proc_preco :: rat
  proc_valor :: rat
  proc_nota :: anotacao

text \<open>The local variables of the loop; \<open>lucro_acumulado\<close> is the local \<^verbatim>\<open>lucro_realizado\<close>.\<close>

record estado =
  custo_total :: decimal
  quantidade_total :: decimal
  lucro_acumulado :: decimal
  pmc :: decimal
  operacoes_processadas :: "processada list"

definition inicial :: estado where
  "inicial = \<lparr>custo_total = 0, quantidade_total = 0, lucro_acumulado = 0, pmc = 0,
              operacoes_processadas = []\<rparr>"

text \<open>
  The three conversions at the head of the loop body. The amount and the quantity are
  floats and always convert; \<^verbatim>\<open>Decimal(str(op['Preco']))\<close> raises
  \<^verbatim>\<open>decimal.InvalidOperation\<close> on a missing, empty or non-numeric price cell.
\<close>

definition converter :: "operacao \<Rightarrow> erro + (decimal \<times> decimal \<times> decimal)" where
  "converter op =
     (case Preco op of
        Numero p \<Rightarrow> Inr (Valor_USDT op, p, Quantidade op)
      | _ \<Rightarrow> Inl InvalidOperation)"

definition processar :: "estado \<Rightarrow> operacao \<Rightarrow> erro + estado" where
  "processar s op =
     (case converter op of
        Inl e \<Rightarrow> Inl e
      | Inr (valor, preco, qtd) \<Rightarrow>
          if Operacao op = ''compra'' then
            (let custo = dec_add (custo_total s) valor;
                 quantidade = dec_add (quantidade_total s) qtd;
                 medio = (if 0 < quantidade then dec_div custo quantidade else 0)
             in Inr (s\<lparr>custo_total := custo, quantidade_total := quantidade, pmc := medio,
                       operacoes_processadas := operacoes_processadas s @
                         [\<lparr>proc_tipo = ''compra'', proc_data = Data op,
                           proc_quantidade = py_float qtd, proc_preco = py_float preco,
                           proc_valor = py_float valor,
                           proc_nota = Pmc_apos (py_float medio)\<rparr>]\<rparr>))
          else if Operacao op = ''venda'' then
            (if quantidade_total s \<le> 0 \<or> pmc s \<le> 0 then
               Inr (s\<lparr>operacoes_processadas := operacoes_processadas s @
                         [\<lparr>proc_tipo = ''venda'', proc_data = Data op,
                           proc_quantidade = py_float qtd, proc_preco = py_float preco,
                           proc_valor = py_float valor,
                           proc_nota = Erro_venda_sem_posicao\<rparr>]\<rparr>)
             else
               (let custo_da_venda = dec_mul qtd (pmc s);
                    lucro_venda = dec_sub valor custo_da_venda
                in Inr (s\<lparr>lucro_acumulado := dec_add (lucro_acumulado s) lucro_venda,
                          custo_total := dec_sub (custo_total s) custo_da_venda,
                          quantidade_total := dec_sub (quantidade_total s) qtd,
                          operacoes_processadas := operacoes_processadas s @
                            [\<lparr>proc_tipo = ''venda'', proc_data = Data op,
                              proc_quantidade = py_float qtd, proc_preco = py_float preco,
                              proc_valor = py_float valor,
                              proc_nota = Lucro (py_float lucro_venda)\<rparr>]\<rparr>)))
          else Inr s)"

text \<open>A \<^verbatim>\<open>for\<close> loop whose body may raise: the first error ends it.\<close>

fun percorrer :: "('s \<Rightarrow> 'a \<Rightarrow> erro + 's) \<Rightarrow> 's \<Rightarrow> 'a list \<Rightarrow> erro + 's" where
  "percorrer f s [] = Inr s"
| "percorrer f s (x # xs) =
     (case f s x of Inl e \<Rightarrow> Inl e | Inr s' \<Rightarrow> percorrer f s' xs)"

record analise =
  operacoes :: "processada list"
  quantidade_final :: rat
  pmc_final :: rat
  custo_posicao_final :: rat
  valor_atual_posicao :: rat
  lucro_realizado :: rat
  lucro_nao_realizado :: rat
  lucro_total :: rat
  preco_de_mercado :: rat

text \<open>
  The tail of \<^verbatim>\<open>_analisar_moeda\<close>. The first guard compares the \<^verbatim>\<open>Decimal\<close> quantity with
  \<^verbatim>\<open>Decimal('1e-9')\<close>, the second the float quantity with the float literal \<^verbatim>\<open>1e-9\<close>; the
  value and the two profits are computed on floats.
\<close>

definition fechar :: "estado \<Rightarrow> rat \<Rightarrow> analise" where
  "fechar s preco_atual =
     (let qtd_final = py_float (quantidade_total s);
          custo_final =
            (if 1 / 10 ^ 9 < quantidade_total s then py_float (custo_total s) else 0);
          valor_atual = (if 0 < preco_atual then float_mul qtd_final preco_atual else 0);
          nao_realizado =
            (if py_float (1 / 10 ^ 9) < qtd_final then float_sub valor_atual custo_final
             else 0)
      in \<lparr>operacoes = operacoes_processadas s, quantidade_final = qtd_final,
          pmc_final = py_float (pmc s), custo_posicao_final = custo_final,
          valor_atual_posicao = valor_atual,
          lucro_realizado = py_float (lucro_acumulado s),
          lucro_nao_realizado = nao_realizado,
          lucro_total = float_add (py_float (lucro_acumulado s)) nao_realizado,
          preco_de_mercado = preco_atual\<rparr>)"

definition analisar_moeda :: "operacao list \<Rightarrow> rat \<Rightarrow> erro + analise" where
  "analisar_moeda ops preco_atual =
     (case percorrer processar inicial ops of
        Inl e \<Rightarrow> Inl e
      | Inr s \<Rightarrow> Inr (fechar s preco_atual))"

section \<open>Aggregation: \<^verbatim>\<open>calcular_portfolio\<close> and \<^verbatim>\<open>calcular_distribuicao_portfolio\<close>\<close>

text \<open>
  \<^verbatim>\<open>ops_por_moeda\<close> is a \<^verbatim>\<open>defaultdict(list)\<close>: an insertion-ordered dictionary, here an
  association list in which \<open>AList.update\<close> replaces the value of a key in place and
  appends a new key at the end, as assignment to a Python \<^verbatim>\<open>dict\<close> does.
\<close>

definition anexar :: "(string \<times> operacao list) list \<Rightarrow> operacao \<Rightarrow> (string \<times> operacao list) list" where
  "anexar grupos op =
     (if Moeda op = ''USDT'' then grupos
      else AList.update (Moeda op)
             ((case map_of grupos (Moeda op) of None \<Rightarrow> [] | Some l \<Rightarrow> l) @ [op]) grupos)"

definition ops_por_moeda :: "operacao list \<Rightarrow> (string \<times> operacao list) list" where
  "ops_por_moeda registros = foldl anexar [] (ordenar registros)"

text \<open>\<^verbatim>\<open>precos_atuais.get(moeda, 0)\<close>\<close>

definition obter_preco :: "(string \<rightharpoonup> rat) \<Rightarrow> string \<Rightarrow> rat" where
  "obter_preco precos_atuais moeda = (case precos_atuais moeda of None \<Rightarrow> 0 | Some p \<Rightarrow> p)"

record totais =
  investido_liquido :: rat
  realizado :: rat
  nao_realizado :: rat
  valor_atual :: rat

text \<open>
  A value of the dictionary \<^verbatim>\<open>resultado\<close>: the snapshot of an asset, the synthetic cash
  position (whose quantity and value are both the balance, the rest being zero or empty),
  or the totals.
\<close>

datatype item = Posicao analise | Caixa rat | Totais totais

definition incluir ::
  "(string \<rightharpoonup> rat) \<Rightarrow> (string \<times> item) list \<times> totais \<Rightarrow> string \<times> operacao list
     \<Rightarrow> erro + (string \<times> item) list \<times> totais" where
  "incluir precos_atuais st grupo =
     (let resultado = fst st; tot = snd st; moeda = fst grupo; ops = snd grupo
      in case analisar_moeda ops (obter_preco precos_atuais moeda) of
           Inl e \<Rightarrow> Inl e
         | Inr analise_moeda \<Rightarrow>
             if py_float (1 / 100) < valor_atual_posicao analise_moeda
                \<or> py_float (1 / 100) < \<bar>lucro_realizado analise_moeda\<bar>
             then Inr (AList.update moeda (Posicao analise_moeda) resultado,
                       \<lparr>investido_liquido =
                           float_add (investido_liquido tot) (custo_posicao_final analise_moeda),
                         realizado = float_add (realizado tot) (lucro_realizado analise_moeda),
                         nao_realizado =
                           float_add (nao_realizado tot) (lucro_nao_realizado analise_moeda),
                         valor_atual =
                           float_add (valor_atual tot) (valor_atual_posicao analise_moeda)\<rparr>)
             else Inr st)"

definition calcular_portfolio ::
  "operacao list \<Rightarrow> (string \<rightharpoonup> rat) \<Rightarrow> erro + (string \<times> item) list" where
  "calcular_portfolio registros precos_atuais =
     (if registros = [] then Inr []
      else
        let saldo_caixa_usdt = saldo_atual (calcular_saldo_usdt registros)
        in case percorrer (incluir precos_atuais)
                  ([], \<lparr>investido_liquido = 0, realizado = 0, nao_realizado = 0,
                         valor_atual = 0\<rparr>)
                  (ops_por_moeda registros) of
             Inl e \<Rightarrow> Inl e
           | Inr st \<Rightarrow>
               let tot = (snd st)\<lparr>valor_atual :=
                                     float_add (valor_atual (snd st)) saldo_caixa_usdt\<rparr>;
                   resultado =
                     (if py_float (1 / 100) < saldo_caixa_usdt
                      then AList.update ''USDT (Caixa)'' (Caixa saldo_caixa_usdt) (fst st)
                      else fst st)
               in Inr (AList.update ''totais'' (Totais tot) resultado))"

text \<open>
  An entry of \<^verbatim>\<open>distribuicao\<close>; the first pass stores the value and the quantity, the
  second adds the percentage.
\<close>

record alocacao =
  aloc_valor_atual :: rat
  aloc_quantidade :: rat
  aloc_percentual :: rat

definition distribuir ::
  "(string \<rightharpoonup> rat) \<Rightarrow> (string \<times> rat \<times> rat) list \<times> rat \<Rightarrow> string \<times> operacao list
     \<Rightarrow> erro + (string \<times> rat \<times> rat) list \<times> rat" where
  "distribuir precos_atuais st grupo =
     (let distribuicao = fst st; total_valor_crypto = snd st;
          moeda = fst grupo; ops = snd grupo
      in case analisar_moeda ops (obter_preco precos_atuais moeda) of
           Inl e \<Rightarrow> Inl e
         | Inr analise \<Rightarrow>
             (let quantidade = quantidade_final analise;
                  valor_de_mercado = valor_atual_posicao analise
              in if py_float (1 / 100) < valor_de_mercado
                 then Inr (AList.update moeda (valor_de_mercado, quantidade) distribuicao,
                           float_add total_valor_crypto valor_de_mercado)
                 else Inr st))"

definition percentual :: "rat \<Rightarrow> rat \<Rightarrow> rat" where
  "percentual valor valor_total_portfolio =
     (if 0 < valor_total_portfolio
      then float_mul (float_div valor valor_total_portfolio) 100 else 0)"

text \<open>
  The result names its total \<^verbatim>\<open>total_valor_portfolio\<close> for an empty log and
  \<^verbatim>\<open>total_investido\<close> otherwise; \<open>chave_total\<close> is that key.
\<close>

record distribuicao_info =
  distribuicao :: "(string \<times> alocacao) list"
  chave_total :: string
  total :: rat

definition calcular_distribuicao_portfolio ::
  "operacao list \<Rightarrow> (string \<rightharpoonup> rat) \<Rightarrow> erro + distribuicao_info" where
  "calcular_distribuicao_portfolio registros precos_atuais =
     (if registros = []
      then Inr \<lparr>distribuicao = [], chave_total = ''total_valor_portfolio'', total = 0\<rparr>
      else
        let saldo_usdt = saldo_atual (calcular_saldo_usdt registros)
        in case percorrer (distribuir precos_atuais) ([], 0) (ops_por_moeda registros) of
             Inl e \<Rightarrow> Inl e
           | Inr st \<Rightarrow>
               let total_valor_crypto = snd st;
                   valor_total_portfolio = float_add total_valor_crypto saldo_usdt;
                   entradas = (if py_float (1 / 100) < saldo_usdt
                           then AList.update ''USDT'' (saldo_usdt, saldo_usdt) (fst st)
                           else fst st)
               in Inr \<lparr>distribuicao =
                          map (\<lambda>(moeda, v, q).
                                (moeda, \<lparr>aloc_valor_atual = v, aloc_quantidade = q,
                                         aloc_percentual = percentual v valor_total_portfolio\<rparr>))
                              entradas,
                        chave_total = ''total_investido'', total = total_valor_crypto\<rparr>)"

section \<open>Definitions for the statements\<close>

text \<open>
  Scenario A of the specification, with the three timestamps as parameters. The deposit
  carries the unit price 1 of the reference currency.
\<close>

definition cenario_A :: "string \<Rightarrow> string \<Rightarrow> string \<Rightarrow> operacao list" where
  "cenario_A d1 d2 d3 =
     [\<lparr>Data = d1, Moeda = ''USDT'', Operacao = ''compra'', Valor_USDT = 1000,
       Preco = Numero 1, Quantidade = 1000\<rparr>,
      \<lparr>Data = d2, Moeda = ''BTC'', Operacao = ''compra'', Valor_USDT = 500,
       Preco = Numero 50000, Quantidade = 1 / 100\<rparr>,
      \<lparr>Data = d3, Moeda = ''BTC'', Operacao = ''venda'', Valor_USDT = 600,
       Preco = Numero 60000, Quantidade = 1 / 100\<rparr>]"






text \<open>
  Internal consistency of a movement history as claim C10 words it, from a starting
  balance: every entry's resulting balance is the previous one plus (deposit,
  sell-credit) or minus (withdrawal, buy-debit) the entry's magnitude. The addition and
  the subtraction are parameters, so that the property can be read in exact, decimal or
  floating arithmetic.
\<close>

fun coerente ::
  "(rat \<Rightarrow> rat \<Rightarrow> rat) \<Rightarrow> (rat \<Rightarrow> rat \<Rightarrow> rat) \<Rightarrow> rat \<Rightarrow> movimento list \<Rightarrow> bool" where
  "coerente mais menos b [] = True"
| "coerente mais menos b (m # ms) =
     ((if mov_tipo m = ''deposito_usdt'' \<or> mov_tipo m = ''venda_crypto''
       then mov_saldo_apos m = mais b (mov_valor m)
       else (mov_tipo m = ''saque_usdt'' \<or> mov_tipo m = ''compra_crypto'')
            \<and> mov_saldo_apos m = menos b (mov_valor m))
      \<and> coerente mais menos (mov_saldo_apos m) ms)"

text \<open>
  The decimal balances behind a history: from a starting balance, the kinds and the
  decimal amounts of the movements give each resulting balance in the engine's decimal
  arithmetic. \<open>saldo_final\<close> is the last of them, or the starting balance.
\<close>

definition movimentar :: "decimal \<Rightarrow> string \<times> decimal \<Rightarrow> decimal" where
  "movimentar b tv =
     (if fst tv = ''deposito_usdt'' \<or> fst tv = ''venda_crypto''
      then dec_add b (snd tv) else dec_sub b (snd tv))"

fun saldos :: "decimal \<Rightarrow> (string \<times> decimal) list \<Rightarrow> decimal list" where
  "saldos b [] = []"
| "saldos b (tv # r) = movimentar b tv # saldos (movimentar b tv) r"

definition tipos_validos :: "movimento list \<Rightarrow> bool" where
  "tipos_validos h =
     list_all (\<lambda>m. mov_tipo m \<in> set [''deposito_usdt'', ''saque_usdt'',
                                      ''compra_crypto'', ''venda_crypto'']) h"

text \<open>
  The decimal amounts \<open>vs\<close> and the decimal balance \<open>b\<close> stand behind the history \<open>h\<close>:
  the kinds are the four known ones, each entry records the float of its amount and the
  float of the decimal balance reached, and \<open>b\<close> is the last decimal balance (0 for an
  empty history).
\<close>

definition lastro :: "decimal \<Rightarrow> movimento list \<Rightarrow> decimal list \<Rightarrow> bool" where
  "lastro b h vs =
     (length vs = length h \<and> tipos_validos h
      \<and> map mov_valor h = map py_float vs
      \<and> map mov_saldo_apos h = map py_float (saldos 0 (zip (map mov_tipo h) vs))
      \<and> b = last (0 # saldos 0 (zip (map mov_tipo h) vs)))"

definition tres_depositos :: "operacao list" where
  "tres_depositos =
     [\<lparr>Data = ''2024-01-01 10:00:00'', Moeda = ''USDT'', Operacao = ''compra'',
       Valor_USDT = 10 ^ 16, Preco = Numero 1, Quantidade = 10 ^ 16\<rparr>,
      \<lparr>Data = ''2024-01-02 10:00:00'', Moeda = ''USDT'', Operacao = ''compra'',
       Valor_USDT = 1 / 10, Preco = Numero 1, Quantidade = 1 / 10\<rparr>,
      \<lparr>Data = ''2024-01-03 10:00:00'', Moeda = ''USDT'', Operacao = ''compra'',
       Valor_USDT = 1, Preco = Numero 1, Quantidade = 1\<rparr>]"

text \<open>
  Every price cell of the list converts: the conversions at the head of the loop body of
  \<^verbatim>\<open>_analisar_moeda\<close> raise on none of the records.
\<close>

definition convertiveis :: "operacao list \<Rightarrow> bool" where
  "convertiveis ops = list_all (\<lambda>op. case Preco op of Numero p \<Rightarrow> True | _ \<Rightarrow> False) ops"

text \<open>The sum of a list of amounts as the engine accumulates it, from the left.\<close>

definition soma_dec :: "decimal list \<Rightarrow> decimal" where
  "soma_dec xs = foldl dec_add 0 xs"

text \<open>
  No overselling along a run of the loop from the state \<open>s\<close>: every bought quantity is
  non-negative, and every sell that the loop accepts (the position and the average cost are
  positive) sells at most the quantity held at that moment.
\<close>

fun sem_excesso :: "estado \<Rightarrow> operacao list \<Rightarrow> bool" where
  "sem_excesso s [] = True"
| "sem_excesso s (op # ops) =
     ((if Operacao op = ''compra'' then 0 \<le> Quantidade op
       else if Operacao op = ''venda''
         then quantidade_total s \<le> 0 \<or> pmc s \<le> 0 \<or> Quantidade op \<le> quantidade_total s
       else True)
      \<and> (case processar s op of Inl e \<Rightarrow> True | Inr s' \<Rightarrow> sem_excesso s' ops))"

text \<open>Concrete records and rows used below.\<close>

definition compra_eth :: operacao where
  "compra_eth = \<lparr>Data = ''2024-02-01 09:00:00'', Moeda = ''ETH'', Operacao = ''compra'',
                  Valor_USDT = 1000, Preco = Numero 500, Quantidade = 2\<rparr>"

definition venda_eth :: operacao where
  "venda_eth = \<lparr>Data = ''2024-03-01 09:00:00'', Moeda = ''ETH'', Operacao = ''venda'',
                 Valor_USDT = 300, Preco = Numero 150, Quantidade = 2\<rparr>"

definition compra_decimo :: operacao where
  "compra_decimo = \<lparr>Data = ''2024-02-01 09:00:00'', Moeda = ''ETH'', Operacao = ''compra'',
                    Valor_USDT = 1 / 10, Preco = Numero (3333333333333333 / 10 ^ 16),
                    Quantidade = 3 / 10\<rparr>"

definition venda_a_mais :: "operacao list" where
  "venda_a_mais =
     [\<lparr>Data = ''2024-02-01 09:00:00'', Moeda = ''ETH'', Operacao = ''compra'',
       Valor_USDT = 100, Preco = Numero 100, Quantidade = 1\<rparr>,
      \<lparr>Data = ''2024-03-01 09:00:00'', Moeda = ''ETH'', Operacao = ''venda'',
       Valor_USDT = 300, Preco = Numero 150, Quantidade = 2\<rparr>]"

definition compra_e_venda :: "operacao list" where
  "compra_e_venda =
     [\<lparr>Data = ''2024-02-01 09:00:00'', Moeda = ''ETH'', Operacao = ''compra'',
       Valor_USDT = 100, Preco = Numero 100, Quantidade = 1\<rparr>,
      \<lparr>Data = ''2024-03-01 09:00:00'', Moeda = ''ETH'', Operacao = ''venda'',
       Valor_USDT = 75, Preco = Numero 150, Quantidade = 1 / 2\<rparr>]"

definition linha_sem_preco :: linha where
  "linha_sem_preco =
     \<lparr>linha_Data = Some ''2024-01-01 10:00:00'', linha_Moeda = Some ''ETH'',
      linha_Operacao = Some ''compra'', linha_Valor_USDT = Numero 1000,
      linha_Preco = Vazia, linha_Quantidade = Numero 2\<rparr>"

definition linha_venda_sem_preco :: linha where
  "linha_venda_sem_preco =
     \<lparr>linha_Data = Some ''2024-01-05 10:00:00'', linha_Moeda = Some ''ETH'',
      linha_Operacao = Some ''venda'', linha_Valor_USDT = Numero 300,
      linha_Preco = Vazia, linha_Quantidade = Numero 2\<rparr>"

definition venda_sem_preco :: operacao where
  "venda_sem_preco = \<lparr>Data = ''2024-01-05 10:00:00'', Moeda = ''ETH'', Operacao = ''venda'',
                      Valor_USDT = 300, Preco = Vazia, Quantidade = 2\<rparr>"

definition compra_btc_t :: operacao where
  "compra_btc_t = \<lparr>Data = ''2024-05-01 12:00:00'', Moeda = ''BTC'', Operacao = ''compra'',
                   Valor_USDT = 100, Preco = Numero 100, Quantidade = 1\<rparr>"

definition venda_btc_t :: operacao where
  "venda_btc_t = \<lparr>Data = ''2024-05-01 12:00:00'', Moeda = ''BTC'', Operacao = ''venda'',
                   Valor_USDT = 150, Preco = Numero 150, Quantidade = 1\<rparr>"





section \<open>Properties\<close>

subsection \<open>Auxiliary facts about the loops and the rounding\<close>

lemma percorrer_append:
  "percorrer f s (xs @ ys) =
     (case percorrer f s xs of Inl e \<Rightarrow> Inl e | Inr s' \<Rightarrow> percorrer f s' ys)"
  by (induction xs arbitrary: s) (auto split: sum.splits)

lemma processar_total:
  "Preco op = Numero p \<Longrightarrow> \<exists>s'. processar s op = Inr s'"
  by (simp add: processar_def converter_def Let_def)

lemma percorrer_total:
  "convertiveis ops \<Longrightarrow> \<exists>s'. percorrer processar s ops = Inr s'"
proof (induction ops arbitrary: s)
  case Nil
  show ?case by simp
next
  case (Cons op ops)
  from Cons.prems obtain p where "Preco op = Numero p" and rest: "convertiveis ops"
    by (auto simp: convertiveis_def split: celula.splits)
  from processar_total [OF this(1)] obtain s1 where "processar s op = Inr s1" by blast
  with Cons.IH [OF rest, of s1] show ?case by simp
qed

text \<open>The binary rounding: exponent, sign, symmetry and idempotence.\<close>

lemma round_half_even_of_int: "round_half_even (of_int n) = n"
  by (simp add: round_half_even_def)

lemma round_half_even_nonneg: "0 \<le> y \<Longrightarrow> 0 \<le> round_half_even y"
proof -
  assume "0 \<le> y"
  then have "0 \<le> \<lfloor>y\<rfloor>" by simp
  then show ?thesis by (simp add: round_half_even_def Let_def)
qed

lemma quantize_nonneg: "0 \<le> x \<Longrightarrow> 0 \<le> quantize x"
proof (cases "x = 0")
  case True
  then show ?thesis by (simp add: quantize_def)
next
  case False
  assume "0 \<le> x"
  with False have pos: "0 < x" by simp
  define s :: rat where "s = power_int 10 (adjusted x - 27)"
  have s: "0 < s" unfolding s_def by (simp add: zero_less_power_int)
  have "0 \<le> \<bar>x\<bar> / s" using s by simp
  then have "0 \<le> round_half_even (\<bar>x\<bar> / s)" by (rule round_half_even_nonneg)
  then have "0 \<le> (of_int (round_half_even (\<bar>x\<bar> / s)) :: rat) * s" using s by simp
  then show ?thesis using pos False by (simp add: quantize_def Let_def s_def)
qed

lemma round_half_even_le: "y < of_int n \<Longrightarrow> round_half_even y \<le> n"
proof -
  assume "y < of_int n"
  then have "\<lfloor>y\<rfloor> < n" by (simp add: floor_less_iff)
  then show ?thesis by (simp add: round_half_even_def Let_def)
qed

lemma potencia_cresce: "a \<le> b \<Longrightarrow> power_int (2::rat) a \<le> power_int 2 b"
  by (rule power_int_increasing) simp_all

lemma potencia_compara: "power_int (2::rat) a < power_int 2 b \<Longrightarrow> a < b"
  using potencia_cresce [of b a] by (cases "a < b") simp_all

lemma potencia_soma: "power_int (2::rat) (a + b) = power_int 2 a * power_int 2 b"
  by (simp add: power_int_add)

lemma bitlen_rat:
  assumes "0 < n"
  shows "power_int (2::rat) (bitlen n - 1) \<le> of_int n \<and> (of_int n :: rat) < power_int 2 (bitlen n)"
proof -
  from assms have b1: "1 \<le> bitlen n" by (simp add: bitlen_alt_def)
  from bitlen_bounds [OF assms]
  have lo: "2 ^ nat (bitlen n - 1) \<le> n" and hi: "n < 2 ^ nat (bitlen n)" by simp_all
  from lo have "(of_int (2 ^ nat (bitlen n - 1)) :: rat) \<le> of_int n" by (simp only: of_int_le_iff)
  then have l: "power_int (2::rat) (bitlen n - 1) \<le> of_int n"
    using b1 by (simp add: power_int_def)
  from hi have "(of_int n :: rat) < of_int (2 ^ nat (bitlen n))" by (simp only: of_int_less_iff)
  then have h: "(of_int n :: rat) < power_int 2 (bitlen n)"
    using b1 by (simp add: power_int_def)
  from l h show ?thesis by simp
qed

lemma expoente2_bounds:
  assumes "x \<noteq> 0"
  shows "power_int 2 (expoente2 x) \<le> \<bar>x\<bar> \<and> \<bar>x\<bar> < power_int 2 (expoente2 x + 1)"
proof -
  obtain p q where pq: "quotient_of \<bar>x\<bar> = (p, q)" by (cases "quotient_of \<bar>x\<bar>")
  then have q: "0 < q" by (rule quotient_of_denom_pos)
  from pq have ax: "\<bar>x\<bar> = of_int p / of_int q" by (rule quotient_of_div)
  from assms have "0 < \<bar>x\<bar>" by simp
  with ax q have p: "0 < p" by (simp add: zero_less_divide_iff)
  define d where "d = bitlen p - bitlen q"
  from bitlen_rat [OF p] have pl: "power_int (2::rat) (bitlen p - 1) \<le> of_int p"
    and ph: "(of_int p :: rat) < power_int 2 (bitlen p)" by simp_all
  from bitlen_rat [OF q] have ql: "power_int (2::rat) (bitlen q - 1) \<le> of_int q"
    and qh: "(of_int q :: rat) < power_int 2 (bitlen q)" by simp_all
  have qpos: "(0::rat) < of_int q" using q by simp
  have e: "expoente2 x = (if of_int q * power_int 2 d \<le> (of_int p :: rat) then d else d - 1)"
    by (simp add: expoente2_def pq d_def Let_def)
  have up: "\<bar>x\<bar> < power_int 2 (d + 1)"
  proof -
    have "power_int (2::rat) (d + 1) * of_int q \<ge> power_int 2 (d + 1) * power_int 2 (bitlen q - 1)"
      using ql by (simp add: mult_left_mono)
    also have "power_int (2::rat) (d + 1) * power_int 2 (bitlen q - 1) = power_int 2 (bitlen p)"
      by (simp add: potencia_soma [symmetric] d_def)
    finally have "of_int p < power_int (2::rat) (d + 1) * of_int q" using ph by simp
    then show ?thesis using qpos by (simp add: ax pos_divide_less_eq)
  qed
  have lo: "power_int 2 (d - 1) \<le> \<bar>x\<bar>"
  proof -
    have "power_int (2::rat) (d - 1) * of_int q \<le> power_int 2 (d - 1) * power_int 2 (bitlen q)"
      using qh by (simp add: mult_left_mono)
    also have "power_int (2::rat) (d - 1) * power_int 2 (bitlen q) = power_int 2 (bitlen p - 1)"
      by (simp add: potencia_soma [symmetric] d_def)
    finally have "power_int (2::rat) (d - 1) * of_int q \<le> of_int p" using pl by simp
    then show ?thesis using qpos by (simp add: ax pos_le_divide_eq)
  qed
  show ?thesis
  proof (cases "of_int q * power_int 2 d \<le> (of_int p :: rat)")
    case True
    then have "power_int 2 d \<le> \<bar>x\<bar>" using qpos by (simp add: ax pos_le_divide_eq mult.commute)
    with up e True show ?thesis by simp
  next
    case False
    then have "\<bar>x\<bar> < power_int 2 d" using qpos by (simp add: ax pos_divide_less_eq mult.commute)
    with lo e False show ?thesis by simp
  qed
qed

lemma expoente2_unique:
  assumes "x \<noteq> 0" and "power_int 2 k \<le> \<bar>x\<bar>" and "\<bar>x\<bar> < power_int 2 (k + 1)"
  shows "expoente2 x = k"
proof -
  from expoente2_bounds [OF assms(1)]
  have l: "power_int 2 (expoente2 x) \<le> \<bar>x\<bar>" and h: "\<bar>x\<bar> < power_int 2 (expoente2 x + 1)"
    by simp_all
  from l assms(3) have "power_int (2::rat) (expoente2 x) < power_int 2 (k + 1)" by simp
  then have a: "expoente2 x < k + 1" by (rule potencia_compara)
  from assms(2) h have "power_int (2::rat) k < power_int 2 (expoente2 x + 1)" by simp
  then have b: "k < expoente2 x + 1" by (rule potencia_compara)
  from a b show ?thesis by simp
qed

lemma py_float_zero: "py_float 0 = 0"
  by (simp add: py_float_def)

lemma expoente2_minus: "expoente2 (- x) = expoente2 x"
  by (simp add: expoente2_def)

lemma py_float_minus: "py_float (- x) = - py_float x"
  by (simp add: py_float_def expoente2_minus Let_def)

lemma py_float_nonneg: "0 \<le> x \<Longrightarrow> 0 \<le> py_float x"
proof (cases "x = 0")
  case True
  then show ?thesis by (simp add: py_float_def)
next
  case False
  assume "0 \<le> x"
  with False have pos: "0 < x" by simp
  define u :: rat where "u = power_int 2 (max (expoente2 x) (- 1022) - 52)"
  have u: "0 < u" unfolding u_def by simp
  have "0 \<le> \<bar>x\<bar> / u" using u by simp
  then have "0 \<le> round_half_even (\<bar>x\<bar> / u)" by (rule round_half_even_nonneg)
  then have "0 \<le> (of_int (round_half_even (\<bar>x\<bar> / u)) :: rat) * u" using u by simp
  then show ?thesis using pos False by (simp add: py_float_def Let_def u_def)
qed

lemma potencia_53: "power_int (2::rat) 53 * power_int 2 (m - 52) = power_int 2 (m + 1)"
proof -
  have eq: "53 + (m - 52) = m + 1" by simp
  have "power_int (2::rat) (53 + (m - 52)) = power_int 2 53 * power_int 2 (m - 52)"
    by (rule potencia_soma)
  then show ?thesis unfolding eq by (rule sym)
qed

lemma py_float_pos_idem:
  assumes "0 < x"
  shows "py_float (py_float x) = py_float x"
proof -
  define e where "e = expoente2 x"
  define m where "m = max e (- 1022)"
  define u :: rat where "u = power_int 2 (m - 52)"
  define n where "n = round_half_even (x / u)"
  define y where "y = py_float x"
  have u: "0 < u" unfolding u_def by simp
  from assms have x0: "x \<noteq> 0" and ax: "\<bar>x\<bar> = x" by simp_all
  have y: "y = of_int n * u"
    using assms by (simp add: y_def py_float_def Let_def n_def u_def m_def e_def)
  from expoente2_bounds [OF x0] have xh: "x < power_int 2 (e + 1)" by (simp add: ax e_def)
  have "e + 1 \<le> m + 1" by (simp add: m_def)
  then have "power_int (2::rat) (e + 1) \<le> power_int 2 (m + 1)" by (rule potencia_cresce)
  with xh have "x < power_int 2 (m + 1)" by simp
  also have "power_int (2::rat) (m + 1) = power_int 2 53 * u"
    unfolding u_def by (rule potencia_53 [symmetric])
  finally have "x / u < power_int 2 53" using u by (simp add: pos_divide_less_eq)
  then have "x / u < of_int (2 ^ 53)" by simp
  then have nle: "n \<le> 2 ^ 53" unfolding n_def by (rule round_half_even_le)
  have "0 \<le> x / u" using assms u by simp
  then have n0: "0 \<le> n" unfolding n_def by (rule round_half_even_nonneg)
  show ?thesis
  proof (cases "n = 0")
    case True
    with y have "y = 0" by simp
    then show ?thesis unfolding y_def [symmetric] by (simp add: py_float_def)
  next
    case False
    with n0 have n1: "1 \<le> n" by simp
    then have ypos: "0 < y" using u by (simp add: y)
    then have y0: "y \<noteq> 0" and ay: "\<bar>y\<bar> = y" by simp_all
    define e' where "e' = expoente2 y"
    define m' where "m' = max e' (- 1022)"
    have inteiro: "\<exists>k. y / power_int 2 (m' - 52) = of_int k"
    proof (cases "n = 2 ^ 53")
      case True
      then have "y = power_int 2 53 * u" by (simp add: y)
      then have yp: "y = power_int 2 (m + 1)"
        unfolding u_def by (simp only: potencia_53)
      have "power_int 2 (m + 1) \<le> \<bar>y\<bar>" "\<bar>y\<bar> < power_int 2 (m + 1 + 1)"
        unfolding ay yp by (simp_all add: potencia_soma)
      from expoente2_unique [OF y0 this] have "e' = m + 1" by (simp add: e'_def)
      then have m1: "m' - 52 = m - 51" by (simp add: m'_def m_def)
      have "power_int (2::rat) ((m + 1) - (m - 51)) = power_int 2 (m + 1) / power_int 2 (m - 51)"
        by (rule power_int_diff) simp
      moreover have "(m + 1) - (m - 51) = 52" by simp
      ultimately have "power_int (2::rat) (m + 1) / power_int 2 (m - 51) = power_int 2 52"
        by (simp only:)
      then have "y / power_int 2 (m' - 52) = power_int 2 52" unfolding yp m1 .
      also have "power_int (2::rat) 52 = of_int (2 ^ 52)" by simp
      finally show ?thesis by blast
    next
      case False
      with nle have "n < 2 ^ 53" by simp
      then have "(of_int n :: rat) < of_int (2 ^ 53)" by (simp only: of_int_less_iff)
      then have "y < power_int 2 53 * u" using u by (simp add: y)
      also have "power_int 2 53 * u = power_int 2 (m + 1)"
        unfolding u_def by (rule potencia_53)
      finally have "\<bar>y\<bar> < power_int 2 (m + 1)" by (simp add: ay)
      moreover from expoente2_bounds [OF y0] have "power_int 2 e' \<le> \<bar>y\<bar>" by (simp add: e'_def)
      ultimately have "power_int (2::rat) e' < power_int 2 (m + 1)" by simp
      then have "e' < m + 1" by (rule potencia_compara)
      then have le: "m' \<le> m" by (simp add: m'_def m_def)
      have d: "power_int (2::rat) ((m - 52) - (m' - 52)) =
                 power_int 2 (m - 52) / power_int 2 (m' - 52)"
        by (rule power_int_diff) simp
      have dd: "(m - 52) - (m' - 52) = m - m'" by simp
      have "y / power_int 2 (m' - 52) =
              of_int n * (power_int 2 (m - 52) / power_int 2 (m' - 52))"
        unfolding y u_def by simp
      also have "\<dots> = of_int n * power_int 2 (m - m')"
        unfolding d [symmetric] dd ..
      also have "power_int (2::rat) (m - m') = of_int (2 ^ nat (m - m'))"
        using le by (simp add: power_int_def)
      also have "of_int n * (of_int (2 ^ nat (m - m')) :: rat) = of_int (n * 2 ^ nat (m - m'))"
        by simp
      finally show ?thesis by blast
    qed
    then obtain k where k: "y / power_int 2 (m' - 52) = of_int k" by blast
    have "py_float y = of_int (round_half_even (y / power_int 2 (m' - 52))) * power_int 2 (m' - 52)"
      using ypos by (simp add: py_float_def Let_def m'_def e'_def)
    also have "\<dots> = of_int k * power_int 2 (m' - 52)"
      by (simp only: k round_half_even_of_int)
    also have "\<dots> = y / power_int 2 (m' - 52) * power_int 2 (m' - 52)" by (simp only: k)
    also have "\<dots> = y" by simp
    finally show ?thesis by (simp add: y_def)
  qed
qed

lemma py_float_idem: "py_float (py_float x) = py_float x"
proof (cases "0 < x")
  case True
  then show ?thesis by (rule py_float_pos_idem)
next
  case False
  show ?thesis
  proof (cases "x = 0")
    case True
    then show ?thesis by (simp add: py_float_def)
  next
    case nz: False
    with False have "0 < - x" by simp
    from py_float_pos_idem [OF this] show ?thesis by (simp add: py_float_minus)
  qed
qed

subsection \<open>Scenario A\<close>

lemma cenario_A_aritmetica:
  "dec_add 0 1000 = 1000" "dec_sub 1000 500 = 500" "dec_add 500 600 = 1100"
  "dec_add 0 500 = 500" "dec_add 0 (1 / 100) = 1 / 100" "dec_div 500 (1 / 100) = 50000"
  "dec_mul (1 / 100) 50000 = 500" "dec_sub 600 500 = 100" "dec_add 0 100 = 100"
  "dec_sub 500 500 = 0" "dec_sub (1 / 100) (1 / 100) = 0"
  "py_float 1100 = 1100" "py_float 100 = 100"
  by code_simp+

lemma ordenar_sorted: "sorted (map Data rs) \<Longrightarrow> ordenar rs = rs"
  unfolding ordenar_def by (rule sort_key_id_if_sorted)

text \<open>
  Claim C2. Replaying the list of scenario A (deposit of 1000 USDT, buy of 0.01 BTC for
  500, sell of 0.01 BTC for 600, in this order of time) gives the cash balance 1100 in
  \<open>calcular_saldo_usdt\<close>; the aggregator groups the two BTC records, and
  \<open>analisar_moeda\<close> on them gives, at any market price, the final quantity 0 and the
  realized profit 100.
\<close>

theorem cenario_A_replay:
  assumes "d1 \<le> d2" and "d2 \<le> d3"
  shows "saldo_atual (calcular_saldo_usdt (cenario_A d1 d2 d3)) = 1100
    \<and> (\<exists>grupo a. ops_por_moeda (cenario_A d1 d2 d3) = [(''BTC'', grupo)]
          \<and> analisar_moeda grupo preco_atual = Inr a
          \<and> quantidade_final a = 0 \<and> lucro_realizado a = 100)"
proof -
  have ord: "ordenar (cenario_A d1 d2 d3) = cenario_A d1 d2 d3"
    using assms by (intro ordenar_sorted) (auto simp: cenario_A_def)
  have saldo: "saldo_atual (calcular_saldo_usdt (cenario_A d1 d2 d3)) = 1100"
    unfolding calcular_saldo_usdt_def ord
    by (simp add: cenario_A_def registrar_def Let_def cenario_A_aritmetica)
  have grupos: "ops_por_moeda (cenario_A d1 d2 d3) = [(''BTC'', tl (cenario_A d1 d2 d3))]"
    unfolding ops_por_moeda_def ord by (simp add: cenario_A_def anexar_def)
  have "percorrer processar inicial (tl (cenario_A d1 d2 d3)) = Inr s \<Longrightarrow>
          quantidade_total s = 0 \<and> lucro_acumulado s = 100" for s
    by (auto simp: cenario_A_def processar_def converter_def inicial_def Let_def
        cenario_A_aritmetica)
  moreover have "py_float 0 = 0" by (simp add: py_float_def)
  moreover have "\<exists>s. percorrer processar inicial (tl (cenario_A d1 d2 d3)) = Inr s"
    by (simp add: cenario_A_def processar_def converter_def inicial_def Let_def
        cenario_A_aritmetica)
  ultimately have "\<exists>a. analisar_moeda (tl (cenario_A d1 d2 d3)) preco_atual = Inr a
      \<and> quantidade_final a = 0 \<and> lucro_realizado a = 100"
    by (auto simp: analisar_moeda_def fechar_def Let_def cenario_A_aritmetica)
  with saldo grupos show ?thesis by blast
qed

theorem cenario_A_replay_witness:
  "(''2024-01-01 10:00:00'' :: string) \<le> ''2024-01-02 10:00:00''
   \<and> (''2024-01-02 10:00:00'' :: string) \<le> ''2024-01-03 10:00:00''
   \<and> saldo_atual (calcular_saldo_usdt
        (cenario_A ''2024-01-01 10:00:00'' ''2024-01-02 10:00:00'' ''2024-01-03 10:00:00'')) = 1100
   \<and> (\<exists>grupo a.
        ops_por_moeda
          (cenario_A ''2024-01-01 10:00:00'' ''2024-01-02 10:00:00'' ''2024-01-03 10:00:00'')
          = [(''BTC'', grupo)]
        \<and> analisar_moeda grupo 65000 = Inr a
        \<and> quantidade_final a = 0 \<and> lucro_realizado a = 100)"
proof -
  have h1: "(''2024-01-01 10:00:00'' :: string) \<le> ''2024-01-02 10:00:00''" by code_simp
  have h2: "(''2024-01-02 10:00:00'' :: string) \<le> ''2024-01-03 10:00:00''" by code_simp
  show ?thesis
    by (rule conjI [OF h1 conjI [OF h2 cenario_A_replay [OF h1 h2]]])
qed

subsection \<open>The ledger applies the four rules in timestamp order\<close>




subsection \<open>A sell without a position\<close>

text \<open>
  With a price cell that converts, a sell met while the quantity or the average cost is
  not positive is appended as an error entry and changes nothing else; through records
  none of which is a buy, the quantity, the cost, the profit and the average cost stay 0.
\<close>

lemma processar_venda_rejeitada:
  assumes "Operacao op = ''venda''" and "Preco op = Numero p"
    and "quantidade_total s \<le> 0 \<or> pmc s \<le> 0"
  shows "processar s op =
     Inr (s\<lparr>operacoes_processadas := operacoes_processadas s @
            [\<lparr>proc_tipo = ''venda'', proc_data = Data op,
              proc_quantidade = py_float (Quantidade op), proc_preco = py_float p,
              proc_valor = py_float (Valor_USDT op),
              proc_nota = Erro_venda_sem_posicao\<rparr>]\<rparr>)"
  using assms by (auto simp: processar_def converter_def)

lemma processar_sem_compra:
  assumes "Operacao op \<noteq> ''compra''" and "Preco op = Numero p"
    and "quantidade_total s = 0" and "pmc s = 0"
  shows "\<exists>s'. processar s op = Inr s' \<and> custo_total s' = custo_total s
           \<and> quantidade_total s' = 0 \<and> pmc s' = 0
           \<and> lucro_acumulado s' = lucro_acumulado s"
  using assms by (auto simp: processar_def converter_def)

lemma percorrer_sem_compra:
  assumes "\<forall>op \<in> set ops. Operacao op \<noteq> ''compra'' \<and> (\<exists>p. Preco op = Numero p)"
    and "quantidade_total s = 0" and "pmc s = 0"
  shows "\<exists>s'. percorrer processar s ops = Inr s' \<and> custo_total s' = custo_total s
           \<and> quantidade_total s' = 0 \<and> pmc s' = 0
           \<and> lucro_acumulado s' = lucro_acumulado s"
  using assms
proof (induction ops arbitrary: s)
  case Nil
  then show ?case by simp
next
  case (Cons op ops)
  from Cons.prems obtain p where p: "Operacao op \<noteq> ''compra''" "Preco op = Numero p"
    by auto
  from processar_sem_compra [OF p Cons.prems(2,3)]
  obtain s1 where s1: "processar s op = Inr s1" "custo_total s1 = custo_total s"
    "quantidade_total s1 = 0" "pmc s1 = 0" "lucro_acumulado s1 = lucro_acumulado s"
    by blast
  from Cons.IH [OF _ s1(3,4)] Cons.prems(1)
  obtain s' where "percorrer processar s1 ops = Inr s'" "custo_total s' = custo_total s1"
    "quantidade_total s' = 0" "pmc s' = 0" "lucro_acumulado s' = lucro_acumulado s1"
    by auto
  with s1 show ?case by simp
qed

lemma venda_rejeitada_continua:
  assumes "Operacao op = ''venda''" and "Preco op = Numero p"
    and "quantidade_total s \<le> 0 \<or> pmc s \<le> 0"
  shows "\<exists>s'. processar s op = Inr s'
     \<and> quantidade_total s' = quantidade_total s \<and> custo_total s' = custo_total s
     \<and> lucro_acumulado s' = lucro_acumulado s \<and> pmc s' = pmc s
     \<and> percorrer processar s (op # resto) = percorrer processar s' resto"
  using processar_venda_rejeitada [OF assms] by simp

text \<open>
  Claim C4 fails on the code. The row \<^verbatim>\<open>2024-01-05 10:00:00,ETH,venda,300,,2\<close> is a SELL
  with no prior BUY; it has every field that \<open>carregar_operacoes\<close> requires and is loaded
  with an empty price cell. The loop of \<open>analisar_moeda\<close> converts the price before it
  looks at the position: at the quantity 0 it ends with \<open>InvalidOperation\<close>, no error entry
  is recorded and nothing after the record is processed.
\<close>

theorem venda_preco_vazio_interrompe:
  "carregar_operacoes [linha_venda_sem_preco] = [venda_sem_preco]
   \<and> Operacao venda_sem_preco = ''venda''
   \<and> quantidade_total inicial = 0 \<and> pmc inicial = 0
   \<and> processar inicial venda_sem_preco = Inl InvalidOperation
   \<and> analisar_moeda (carregar_operacoes [linha_venda_sem_preco]) 0 = Inl InvalidOperation
   \<and> analisar_moeda (carregar_operacoes [linha_venda_sem_preco] @ [compra_eth]) 0
       = Inl InvalidOperation"
proof -
  have c: "carregar_operacoes [linha_venda_sem_preco] = [venda_sem_preco]"
    by (simp add: carregar_operacoes_def List.map_filter_def validar_linha_def presente_def
        linha_venda_sem_preco_def venda_sem_preco_def lower_def)
  have p: "processar inicial venda_sem_preco = Inl InvalidOperation"
    by (simp add: processar_def converter_def venda_sem_preco_def)
  show ?thesis unfolding c
    using p by (simp add: analisar_moeda_def inicial_def venda_sem_preco_def)
qed

subsection \<open>A missing price\<close>

lemma float_sub_zero: "float_sub 0 (py_float c) = - py_float c"
  by (simp add: float_sub_def py_float_minus py_float_idem)

lemma compra_eth_aritmetica:
  "dec_add 0 1000 = 1000" "dec_add 0 2 = 2" "dec_div 1000 2 = 500"
  "py_float 1000 = 1000" "py_float 2 = 2" "py_float 500 = 500"
  "py_float (1 / 1000000000) < 2" "py_float (- 1000) = - 1000"
  by code_simp+

text \<open>
  Claim C1, as stated, fails: scenario C (a position of 2 ETH bought for 1000, no price
  for ETH) has market value 0 but unrealized profit -1000, not 0.
\<close>

theorem sem_preco_counterexample:
  "analisar_moeda [compra_eth] (obter_preco Map.empty ''ETH'') =
     Inr \<lparr>operacoes = [\<lparr>proc_tipo = ''compra'', proc_data = ''2024-02-01 09:00:00'',
                         proc_quantidade = 2, proc_preco = 500, proc_valor = 1000,
                         proc_nota = Pmc_apos 500\<rparr>],
          quantidade_final = 2, pmc_final = 500, custo_posicao_final = 1000,
          valor_atual_posicao = 0, lucro_realizado = 0, lucro_nao_realizado = - 1000,
          lucro_total = - 1000, preco_de_mercado = 0\<rparr>"
  by (simp add: analisar_moeda_def compra_eth_def obter_preco_def processar_def converter_def
      inicial_def fechar_def float_sub_def float_add_def Let_def py_float_zero
      compra_eth_aritmetica)

text \<open>
  Claim C1, amended. When the price map has no entry for the asset and the records
  convert, the snapshot of \<open>analisar_moeda\<close> has market value 0; its unrealized profit is
  minus the reported cost basis when the final quantity exceeds the float \<^verbatim>\<open>1e-9\<close>, and 0
  otherwise; its cost basis and realized profit are those of the snapshot at any price.
\<close>

theorem sem_preco:
  assumes "precos_atuais moeda = None" and "convertiveis ops"
  shows "\<exists>a. analisar_moeda ops (obter_preco precos_atuais moeda) = Inr a
           \<and> valor_atual_posicao a = 0
           \<and> lucro_nao_realizado a =
               (if py_float (1 / 10 ^ 9) < quantidade_final a
                then - custo_posicao_final a else 0)
           \<and> (\<forall>p. \<exists>b. analisar_moeda ops p = Inr b
                 \<and> custo_posicao_final b = custo_posicao_final a
                 \<and> lucro_realizado b = lucro_realizado a)"
proof -
  from percorrer_total [OF assms(2)]
  obtain s where "percorrer processar inicial ops = Inr s" by blast
  moreover have "float_sub 0 0 = 0" by (simp add: float_sub_def py_float_zero)
  ultimately show ?thesis using assms(1)
    by (simp add: analisar_moeda_def fechar_def obter_preco_def Let_def float_sub_zero)
qed

theorem sem_preco_witness:
  "convertiveis [compra_eth]
   \<and> (\<exists>a. analisar_moeda [compra_eth] (obter_preco Map.empty ''ETH'') = Inr a
           \<and> valor_atual_posicao a = 0
           \<and> lucro_nao_realizado a =
               (if py_float (1 / 10 ^ 9) < quantidade_final a
                then - custo_posicao_final a else 0)
           \<and> (\<forall>p. \<exists>b. analisar_moeda [compra_eth] p = Inr b
                 \<and> custo_posicao_final b = custo_posicao_final a
                 \<and> lucro_realizado b = lucro_realizado a))"
proof -
  have h1: "Map.empty ''ETH'' = (None :: rat option)" by simp
  have h2: "convertiveis [compra_eth]" by (simp add: convertiveis_def compra_eth_def)
  show ?thesis by (rule conjI [OF h2 sem_preco [OF h1 h2]])
qed

subsection \<open>Average cost after buys only\<close>

lemma compra_decimo_aritmetica:
  "dec_add 0 (1 / 10) = 1 / 10" "dec_add 0 (3 / 10) = 3 / 10"
  "dec_div (1 / 10) (3 / 10)
     = 3333333333333333333333333333 / 10000000000000000000000000000"
  "py_float (3333333333333333333333333333 / 10000000000000000000000000000)
     = 6004799503160661 / 18014398509481984"
  "float_div (py_float (1 / 10)) (py_float (3 / 10)) = 3002399751580331 / 9007199254740992"
  by code_simp+

text \<open>
  Claim C8, as stated, fails: one buy of 0.3 units for the amount 0.1 leaves in the
  snapshot the average cost 6004799503160661 / 2 ^ 54, the float that prints as
  \<^verbatim>\<open>0.3333333333333333\<close>. It is the float of the decimal quotient rounded to 28 digits:
  neither the amount divided by the quantity, one third, nor the quotient of the two
  floats, which prints as \<^verbatim>\<open>0.33333333333333337\<close>.
\<close>

theorem pmc_compras_counterexample:
  "map_sum id pmc_final (analisar_moeda [compra_decimo] 0) = Inr (6004799503160661 / 2 ^ 54)
   \<and> (6004799503160661 / 2 ^ 54 :: rat) \<noteq> Valor_USDT compra_decimo / Quantidade compra_decimo
   \<and> (6004799503160661 / 2 ^ 54 :: rat)
       \<noteq> float_div (py_float (Valor_USDT compra_decimo)) (py_float (Quantidade compra_decimo))"
proof -
  have "map_sum id pmc_final (analisar_moeda [compra_decimo] 0) = Inr (6004799503160661 / 2 ^ 54)"
    by (simp add: analisar_moeda_def compra_decimo_def processar_def converter_def
        inicial_def fechar_def Let_def compra_decimo_aritmetica)
  moreover have "(6004799503160661 / 2 ^ 54 :: rat)
       \<noteq> Valor_USDT compra_decimo / Quantidade compra_decimo"
    by (simp add: compra_decimo_def)
  moreover have "(6004799503160661 / 2 ^ 54 :: rat)
       \<noteq> float_div (py_float (Valor_USDT compra_decimo)) (py_float (Quantidade compra_decimo))"
    by (simp add: compra_decimo_def compra_decimo_aritmetica)
  ultimately show ?thesis by (intro conjI)
qed

lemma processar_compra:
  assumes "Operacao op = ''compra''" and "Preco op = Numero p"
  shows "\<exists>s'. processar s op = Inr s'
     \<and> custo_total s' = dec_add (custo_total s) (Valor_USDT op)
     \<and> quantidade_total s' = dec_add (quantidade_total s) (Quantidade op)
     \<and> pmc s' = (if 0 < quantidade_total s' then dec_div (custo_total s') (quantidade_total s') else 0)"
  using assms by (simp add: processar_def converter_def Let_def)

lemma percorrer_compras:
  assumes "\<forall>op \<in> set ops. Operacao op = ''compra''" and "convertiveis ops"
  shows "\<exists>s'. percorrer processar inicial ops = Inr s'
     \<and> custo_total s' = soma_dec (map Valor_USDT ops)
     \<and> quantidade_total s' = soma_dec (map Quantidade ops)
     \<and> (ops \<noteq> [] \<longrightarrow> pmc s' =
           (if 0 < quantidade_total s' then dec_div (custo_total s') (quantidade_total s') else 0))"
  using assms
proof (induction ops rule: rev_induct)
  case Nil
  show ?case by (simp add: inicial_def soma_dec_def)
next
  case (snoc op ops)
  from snoc.prems have "\<forall>op \<in> set ops. Operacao op = ''compra''" "convertiveis ops"
    by (auto simp: convertiveis_def)
  from snoc.IH [OF this] obtain s1 where s1: "percorrer processar inicial ops = Inr s1"
    "custo_total s1 = soma_dec (map Valor_USDT ops)"
    "quantidade_total s1 = soma_dec (map Quantidade ops)" by blast
  from snoc.prems obtain p where "Operacao op = ''compra''" "Preco op = Numero p"
    by (auto simp: convertiveis_def split: celula.splits)
  from processar_compra [OF this, of s1] obtain s2 where s2: "processar s1 op = Inr s2"
    "custo_total s2 = dec_add (custo_total s1) (Valor_USDT op)"
    "quantidade_total s2 = dec_add (quantidade_total s1) (Quantidade op)"
    "pmc s2 = (if 0 < quantidade_total s2 then dec_div (custo_total s2) (quantidade_total s2) else 0)"
    by blast
  show ?case using s1 s2 by (simp add: percorrer_append soma_dec_def)
qed

text \<open>
  Claim C8, amended. After a non-empty sequence of buys only, the average cost of the
  snapshot is the float of the decimal quotient (rounded to 28 significant digits) of the
  accumulated amount by the accumulated quantity when that quantity is positive, and 0
  otherwise.
\<close>

theorem pmc_compras:
  assumes "ops \<noteq> []" and "\<forall>op \<in> set ops. Operacao op = ''compra''" and "convertiveis ops"
  shows "\<exists>a. analisar_moeda ops preco_atual = Inr a
     \<and> pmc_final a =
         (if 0 < soma_dec (map Quantidade ops)
          then py_float (dec_div (soma_dec (map Valor_USDT ops)) (soma_dec (map Quantidade ops)))
          else 0)"
  using percorrer_compras [OF assms(2,3)] assms(1)
  by (auto simp: analisar_moeda_def fechar_def Let_def py_float_zero)

theorem pmc_compras_witness:
  "[compra_decimo] \<noteq> [] \<and> convertiveis [compra_decimo]
   \<and> (\<exists>a. analisar_moeda [compra_decimo] 0 = Inr a
     \<and> pmc_final a =
         (if 0 < soma_dec (map Quantidade [compra_decimo])
          then py_float (dec_div (soma_dec (map Valor_USDT [compra_decimo]))
                 (soma_dec (map Quantidade [compra_decimo])))
          else 0))"
proof -
  have h1: "[compra_decimo] \<noteq> []" by simp
  have h2: "\<forall>op \<in> set [compra_decimo]. Operacao op = ''compra''"
    by (simp add: compra_decimo_def)
  have h3: "convertiveis [compra_decimo]" by (simp add: convertiveis_def compra_decimo_def)
  show ?thesis by (rule conjI [OF h1 conjI [OF h3 pmc_compras [OF h1 h2 h3]]])
qed

subsection \<open>Sign of the quantity held\<close>

lemma processar_quantidade:
  assumes "Preco op = Numero p"
  shows "\<exists>s'. processar s op = Inr s' \<and> quantidade_total s' =
     (if Operacao op = ''compra'' then dec_add (quantidade_total s) (Quantidade op)
      else if Operacao op = ''venda'' then
        (if quantidade_total s \<le> 0 \<or> pmc s \<le> 0 then quantidade_total s
         else dec_sub (quantidade_total s) (Quantidade op))
      else quantidade_total s)"
  using assms by (simp add: processar_def converter_def Let_def)

lemma processar_nao_negativa:
  assumes "0 \<le> quantidade_total s" and "sem_excesso s (op # ops)" and "Preco op = Numero p"
  shows "\<exists>s'. processar s op = Inr s' \<and> 0 \<le> quantidade_total s' \<and> sem_excesso s' ops"
proof -
  from processar_quantidade [OF assms(3), of s]
  obtain s' where s': "processar s op = Inr s'" and q: "quantidade_total s' =
     (if Operacao op = ''compra'' then dec_add (quantidade_total s) (Quantidade op)
      else if Operacao op = ''venda'' then
        (if quantidade_total s \<le> 0 \<or> pmc s \<le> 0 then quantidade_total s
         else dec_sub (quantidade_total s) (Quantidade op))
      else quantidade_total s)"
    by blast
  from s' assms(2) have rest: "sem_excesso s' ops" by simp
  have "0 \<le> quantidade_total s'"
  proof (cases "Operacao op = ''compra''")
    case True
    with assms(2) have "0 \<le> Quantidade op" by simp
    with assms(1) have "0 \<le> dec_add (quantidade_total s) (Quantidade op)"
      unfolding dec_add_def by (intro quantize_nonneg) simp
    with q True show ?thesis by simp
  next
    case nc: False
    show ?thesis
    proof (cases "Operacao op = ''venda'' \<and> \<not> (quantidade_total s \<le> 0 \<or> pmc s \<le> 0)")
      case False
      with nc q assms(1) show ?thesis by auto
    next
      case True
      with assms(2) nc have "Quantidade op \<le> quantidade_total s" by auto
      then have "0 \<le> dec_sub (quantidade_total s) (Quantidade op)"
        unfolding dec_sub_def by (intro quantize_nonneg) simp
      with nc True q show ?thesis by auto
    qed
  qed
  with s' rest show ?thesis by blast
qed

lemma percorrer_nao_negativa:
  assumes "0 \<le> quantidade_total s" and "sem_excesso s ops" and "convertiveis ops"
  shows "\<exists>s'. percorrer processar s (take n ops) = Inr s' \<and> 0 \<le> quantidade_total s'"
  using assms
proof (induction ops arbitrary: s n)
  case Nil
  then show ?case by simp
next
  case (Cons op ops)
  show ?case
  proof (cases n)
    case 0
    with Cons.prems(1) show ?thesis by simp
  next
    case (Suc m)
    from Cons.prems(3) obtain p where p: "Preco op = Numero p" and rest: "convertiveis ops"
      by (auto simp: convertiveis_def split: celula.splits)
    from processar_nao_negativa [OF Cons.prems(1,2) p]
    obtain s1 where s1: "processar s op = Inr s1" "0 \<le> quantidade_total s1" "sem_excesso s1 ops"
      by blast
    from Cons.IH [OF s1(2,3) rest, of m] s1(1) Suc show ?thesis by simp
  qed
qed

lemma venda_a_mais_aritmetica:
  "dec_add 0 100 = 100" "dec_add 0 1 = 1" "dec_div 100 1 = 100" "dec_mul 2 100 = 200"
  "dec_sub 300 200 = 100" "dec_sub 100 200 = - 100" "dec_sub 1 2 = - 1"
  "dec_mul (1 / 2) 100 = 50" "dec_sub 75 50 = 25" "dec_add 0 25 = 25"
  "dec_sub 100 50 = 50" "dec_sub 1 (1 / 2) = 1 / 2" "py_float (- 1) = - 1"
  by code_simp+

text \<open>
  Claim C9, as stated, fails: after a buy of 1 unit, a sell of 2 units is accepted and the
  final quantity is -1.
\<close>

theorem quantidade_negativa_counterexample:
  "map_sum id quantidade_final (analisar_moeda venda_a_mais 0) = Inr (- 1)"
  by (simp add: analisar_moeda_def venda_a_mais_def processar_def converter_def inicial_def
      fechar_def Let_def venda_a_mais_aritmetica)

text \<open>
  Claim C9, amended. When no bought quantity is negative and no accepted sell exceeds the
  quantity held when it is processed, and the records convert, the running quantity is
  non-negative after every record and in the final snapshot.
\<close>

theorem quantidade_nao_negativa:
  assumes "sem_excesso inicial ops" and "convertiveis ops"
  shows "(\<forall>n. \<exists>s. percorrer processar inicial (take n ops) = Inr s \<and> 0 \<le> quantidade_total s)
    \<and> (\<exists>a. analisar_moeda ops preco_atual = Inr a \<and> 0 \<le> quantidade_final a)"
proof -
  have z: "0 \<le> quantidade_total inicial" by (simp add: inicial_def)
  have a: "\<exists>s. percorrer processar inicial (take n ops) = Inr s \<and> 0 \<le> quantidade_total s" for n
    by (rule percorrer_nao_negativa [OF z assms])
  from a [of "length ops"] have "\<exists>a. analisar_moeda ops preco_atual = Inr a \<and> 0 \<le> quantidade_final a"
    by (auto simp: analisar_moeda_def fechar_def Let_def py_float_nonneg)
  with a show ?thesis by blast
qed

theorem quantidade_nao_negativa_witness:
  "sem_excesso inicial compra_e_venda \<and> convertiveis compra_e_venda
   \<and> (\<exists>a. analisar_moeda compra_e_venda 0 = Inr a \<and> 0 \<le> quantidade_final a)"
proof -
  have h1: "sem_excesso inicial compra_e_venda"
    by (simp add: compra_e_venda_def processar_def converter_def inicial_def Let_def
        venda_a_mais_aritmetica)
  have h2: "convertiveis compra_e_venda" by (simp add: convertiveis_def compra_e_venda_def)
  from quantidade_nao_negativa [OF h1 h2, of 0] h1 h2 show ?thesis by blast
qed

subsection \<open>A row without a price passes the load and stops the core\<close>

text \<open>
  Claim C5 fails on the code. The row
  \<^verbatim>\<open>2024-01-01 10:00:00,ETH,compra,1000,,2\<close> has every field that
  \<open>carregar_operacoes\<close> requires, so it is loaded; its price cell is empty, and
  \<open>analisar_moeda\<close>, hence \<open>calcular_portfolio\<close> and
  \<open>calcular_distribuicao_portfolio\<close>, end with \<open>InvalidOperation\<close> on the loaded list.
\<close>

theorem preco_vazio_interrompe:
  "carregar_operacoes [linha_sem_preco] =
     [\<lparr>Data = ''2024-01-01 10:00:00'', Moeda = ''ETH'', Operacao = ''compra'',
       Valor_USDT = 1000, Preco = Vazia, Quantidade = 2\<rparr>]
   \<and> analisar_moeda (carregar_operacoes [linha_sem_preco]) 0 = Inl InvalidOperation
   \<and> calcular_portfolio (carregar_operacoes [linha_sem_preco]) Map.empty = Inl InvalidOperation
   \<and> calcular_distribuicao_portfolio (carregar_operacoes [linha_sem_preco]) Map.empty
       = Inl InvalidOperation"
  by code_simp

subsection \<open>Order of the input and ties of timestamp\<close>

lemma ordenar_permutacao:
  assumes "mset registros' = mset registros" and "distinct (map Data registros)"
  shows "ordenar registros' = ordenar registros"
proof -
  have "sort_key Data registros = sort_key Data registros'"
  proof (rule sort_key_inj_key_eq)
    show "mset registros = mset (sort_key Data registros')" using assms(1) by simp
    show "inj_on Data (set registros)" using assms(2) by (simp add: distinct_map)
    show "sorted (map Data (sort_key Data registros'))" by simp
  qed
  then show ?thesis by (simp add: ordenar_def)
qed

lemma empate_aritmetica:
  "dec_add 0 100 = 100" "dec_add 0 1 = 1" "dec_div 100 1 = 100" "dec_mul 1 100 = 100"
  "dec_sub 150 100 = 50" "dec_add 0 50 = 50" "dec_sub 100 100 = 0" "dec_sub 1 1 = 0"
  "py_float 1 = 1"
  by code_simp+

text \<open>
  Claim C7, as stated, fails: a buy and a sell of BTC with the same timestamp are a
  permutation of each other in either order, and the stable sort keeps the order given.
  Buy first, the sell is accepted and the final quantity is 0; sell first, the sell is
  rejected and the final quantity is 1. The ledger histories differ in order as well.
\<close>

theorem permutacao_com_empate_counterexample:
  "mset [venda_btc_t, compra_btc_t] = mset [compra_btc_t, venda_btc_t]
   \<and> ops_por_moeda [compra_btc_t, venda_btc_t] = [(''BTC'', [compra_btc_t, venda_btc_t])]
   \<and> ops_por_moeda [venda_btc_t, compra_btc_t] = [(''BTC'', [venda_btc_t, compra_btc_t])]
   \<and> map_sum id quantidade_final (analisar_moeda [compra_btc_t, venda_btc_t] 0) = Inr 0
   \<and> map_sum id quantidade_final (analisar_moeda [venda_btc_t, compra_btc_t] 0) = Inr 1
   \<and> map mov_tipo (historico (calcular_saldo_usdt [compra_btc_t, venda_btc_t]))
        = [''compra_crypto'', ''venda_crypto'']
   \<and> map mov_tipo (historico (calcular_saldo_usdt [venda_btc_t, compra_btc_t]))
        = [''venda_crypto'', ''compra_crypto'']"
proof -
  have o1: "ordenar [compra_btc_t, venda_btc_t] = [compra_btc_t, venda_btc_t]"
    and o2: "ordenar [venda_btc_t, compra_btc_t] = [venda_btc_t, compra_btc_t]"
    by (simp_all add: ordenar_def compra_btc_t_def venda_btc_t_def)
  have m: "mset [venda_btc_t, compra_btc_t] = mset [compra_btc_t, venda_btc_t]"
    by (simp add: add.commute)
  have g1: "ops_por_moeda [compra_btc_t, venda_btc_t] = [(''BTC'', [compra_btc_t, venda_btc_t])]"
    unfolding ops_por_moeda_def o1 by (simp add: anexar_def compra_btc_t_def venda_btc_t_def)
  have g2: "ops_por_moeda [venda_btc_t, compra_btc_t] = [(''BTC'', [venda_btc_t, compra_btc_t])]"
    unfolding ops_por_moeda_def o2 by (simp add: anexar_def compra_btc_t_def venda_btc_t_def)
  have a1: "map_sum id quantidade_final (analisar_moeda [compra_btc_t, venda_btc_t] 0) = Inr 0"
    by (simp add: analisar_moeda_def compra_btc_t_def venda_btc_t_def processar_def
        converter_def inicial_def fechar_def Let_def empate_aritmetica py_float_zero)
  have a2: "map_sum id quantidade_final (analisar_moeda [venda_btc_t, compra_btc_t] 0) = Inr 1"
    by (simp add: analisar_moeda_def compra_btc_t_def venda_btc_t_def processar_def
        converter_def inicial_def fechar_def Let_def empate_aritmetica py_float_zero)
  have h1: "map mov_tipo (historico (calcular_saldo_usdt [compra_btc_t, venda_btc_t]))
        = [''compra_crypto'', ''venda_crypto'']"
    unfolding calcular_saldo_usdt_def o1
    by (simp add: compra_btc_t_def venda_btc_t_def registrar_def Let_def)
  have h2: "map mov_tipo (historico (calcular_saldo_usdt [venda_btc_t, compra_btc_t]))
        = [''venda_crypto'', ''compra_crypto'']"
    unfolding calcular_saldo_usdt_def o2
    by (simp add: compra_btc_t_def venda_btc_t_def registrar_def Let_def)
  from m g1 g2 a1 a2 h1 h2 show ?thesis by (intro conjI)
qed

text \<open>
  Claim C7, amended. For every list of records with pairwise distinct timestamps and
  every permutation of it, the ledger replay, the grouping by asset and the portfolio
  (hence every per-asset snapshot) are the same for both.
\<close>

theorem permutacao_sem_empate:
  assumes "mset registros' = mset registros" and "distinct (map Data registros)"
  shows "calcular_saldo_usdt registros' = calcular_saldo_usdt registros
    \<and> ops_por_moeda registros' = ops_por_moeda registros
    \<and> calcular_portfolio registros' precos_atuais = calcular_portfolio registros precos_atuais"
proof -
  have o: "ordenar registros' = ordenar registros"
    by (rule ordenar_permutacao [OF assms])
  have e: "(registros' = []) = (registros = [])"
    using assms(1) by (metis mset_zero_iff)
  have s: "calcular_saldo_usdt registros' = calcular_saldo_usdt registros"
    by (simp add: calcular_saldo_usdt_def o)
  have g: "ops_por_moeda registros' = ops_por_moeda registros"
    by (simp add: ops_por_moeda_def o)
  show ?thesis using s g e by (simp add: calcular_portfolio_def)
qed

theorem permutacao_sem_empate_witness:
  "mset [venda_eth, compra_eth] = mset [compra_eth, venda_eth]
   \<and> distinct (map Data [compra_eth, venda_eth])
   \<and> calcular_saldo_usdt [venda_eth, compra_eth] = calcular_saldo_usdt [compra_eth, venda_eth]
   \<and> ops_por_moeda [venda_eth, compra_eth] = ops_por_moeda [compra_eth, venda_eth]
   \<and> calcular_portfolio [venda_eth, compra_eth] Map.empty
       = calcular_portfolio [compra_eth, venda_eth] Map.empty"
proof -
  have h1: "mset [venda_eth, compra_eth] = mset [compra_eth, venda_eth]"
    by (simp add: add.commute)
  have h2: "distinct (map Data [compra_eth, venda_eth])"
    by (simp add: compra_eth_def venda_eth_def)
  show ?thesis by (rule conjI [OF h1 conjI [OF h2 permutacao_sem_empate [OF h1 h2]]])
qed

subsection \<open>Allocation percentages\<close>

























subsection \<open>Consistency of the movement history\<close>

lemma tres_depositos_aritmetica:
  "dec_add 0 10000000000000000 = 10000000000000000"
  "dec_add 10000000000000000 (1 / 10) = 100000000000000001 / 10"
  "dec_add (100000000000000001 / 10) 1 = 100000000000000011 / 10"
  "py_float 10000000000000000 = 10000000000000000"
  "py_float (100000000000000001 / 10) = 10000000000000000"
  "py_float (100000000000000011 / 10) = 10000000000000002"
  "py_float (1 / 10) = 3602879701896397 / 36028797018963968"
  "py_float 1 = 1"
  "float_add 0 10000000000000000 = 10000000000000000"
  "float_add 10000000000000000 (3602879701896397 / 36028797018963968) = 10000000000000000"
  "float_add 10000000000000000 1 = 10000000000000000"
  "dec_add 10000000000000000 (3602879701896397 / 36028797018963968) \<noteq> 10000000000000000"
  by code_simp+

lemma tres_depositos_historico:
  "historico (calcular_saldo_usdt tres_depositos) =
     [\<lparr>mov_data = ''2024-01-01 10:00:00'', mov_tipo = ''deposito_usdt'', mov_moeda = None,
       mov_valor = 10000000000000000, mov_saldo_apos = 10000000000000000\<rparr>,
      \<lparr>mov_data = ''2024-01-02 10:00:00'', mov_tipo = ''deposito_usdt'', mov_moeda = None,
       mov_valor = 3602879701896397 / 36028797018963968,
       mov_saldo_apos = 10000000000000000\<rparr>,
      \<lparr>mov_data = ''2024-01-03 10:00:00'', mov_tipo = ''deposito_usdt'', mov_moeda = None,
       mov_valor = 1, mov_saldo_apos = 10000000000000002\<rparr>]"
  by (simp add: calcular_saldo_usdt_def ordenar_def tres_depositos_def registrar_def Let_def
      tres_depositos_aritmetica)

text \<open>
  Claim C10, as stated, fails: after the deposits 1e16, 0.1 and 1.0 the history records
  the balances 1e16, 1e16 and 1.0000000000000002e16 and the values 1e16, 0.1 and 1.0. The
  third balance is the second plus 2, not plus the entry's value 1, and the history is
  consistent neither in exact nor in floating nor in decimal arithmetic.
\<close>

theorem historico_coerente_counterexample:
  "map mov_saldo_apos (historico (calcular_saldo_usdt tres_depositos))
     = [10000000000000000, 10000000000000000, 10000000000000002]
   \<and> map mov_valor (historico (calcular_saldo_usdt tres_depositos))
     = [10000000000000000, 3602879701896397 / 36028797018963968, 1]
   \<and> \<not> coerente (+) (-) 0 (historico (calcular_saldo_usdt tres_depositos))
   \<and> \<not> coerente float_add float_sub 0 (historico (calcular_saldo_usdt tres_depositos))
   \<and> \<not> coerente dec_add dec_sub 0 (historico (calcular_saldo_usdt tres_depositos))"
  unfolding tres_depositos_historico
  by (simp add: tres_depositos_aritmetica)

lemma length_saldos: "length (saldos b xs) = length xs"
  by (induction xs arbitrary: b) simp_all

lemma saldos_snoc:
  "saldos b (xs @ [tv]) = saldos b xs @ [movimentar (last (b # saldos b xs)) tv]"
  by (induction xs arbitrary: b) simp_all

lemma lastro_vazio: "lastro 0 [] []"
  by (simp add: lastro_def tipos_validos_def)

lemma lastro_snoc:
  assumes "lastro b h vs"
    and "t \<in> set [''deposito_usdt'', ''saque_usdt'', ''compra_crypto'', ''venda_crypto'']"
  shows "lastro (movimentar b (t, v))
           (h @ [\<lparr>mov_data = d, mov_tipo = t, mov_moeda = mo, mov_valor = py_float v,
                  mov_saldo_apos = py_float (movimentar b (t, v))\<rparr>])
           (vs @ [v])"
proof -
  from assms(1) have len: "length vs = length h"
    and tv: "tipos_validos h"
    and va: "map mov_valor h = map py_float vs"
    and sa: "map mov_saldo_apos h = map py_float (saldos 0 (zip (map mov_tipo h) vs))"
    and b: "b = last (0 # saldos 0 (zip (map mov_tipo h) vs))"
    by (simp_all add: lastro_def)
  have s: "saldos 0 (zip (map mov_tipo h) vs @ [(t, v)])
             = saldos 0 (zip (map mov_tipo h) vs) @ [movimentar b (t, v)]"
    unfolding saldos_snoc b ..
  show ?thesis
    unfolding lastro_def
    using len tv va sa assms(2) by (simp add: s tipos_validos_def)
qed

lemma registrar_lastro:
  assumes "lastro (fst st) (snd st) vs"
  shows "\<exists>vs'. lastro (fst (registrar st op)) (snd (registrar st op)) vs'"
proof -
  have dep: "\<And>d mo. lastro (dec_add (fst st) (Valor_USDT op))
      (snd st @ [\<lparr>mov_data = d, mov_tipo = ''deposito_usdt'', mov_moeda = mo,
                  mov_valor = py_float (Valor_USDT op),
                  mov_saldo_apos = py_float (dec_add (fst st) (Valor_USDT op))\<rparr>])
      (vs @ [Valor_USDT op])"
    using lastro_snoc [OF assms, of "''deposito_usdt''" "Valor_USDT op"]
    by (simp add: movimentar_def)
  have saq: "\<And>d mo. lastro (dec_sub (fst st) (Valor_USDT op))
      (snd st @ [\<lparr>mov_data = d, mov_tipo = ''saque_usdt'', mov_moeda = mo,
                  mov_valor = py_float (Valor_USDT op),
                  mov_saldo_apos = py_float (dec_sub (fst st) (Valor_USDT op))\<rparr>])
      (vs @ [Valor_USDT op])"
    using lastro_snoc [OF assms, of "''saque_usdt''" "Valor_USDT op"]
    by (simp add: movimentar_def)
  have com: "\<And>d mo. lastro (dec_sub (fst st) (Valor_USDT op))
      (snd st @ [\<lparr>mov_data = d, mov_tipo = ''compra_crypto'', mov_moeda = mo,
                  mov_valor = py_float (Valor_USDT op),
                  mov_saldo_apos = py_float (dec_sub (fst st) (Valor_USDT op))\<rparr>])
      (vs @ [Valor_USDT op])"
    using lastro_snoc [OF assms, of "''compra_crypto''" "Valor_USDT op"]
    by (simp add: movimentar_def)
  have ven: "\<And>d mo. lastro (dec_add (fst st) (Valor_USDT op))
      (snd st @ [\<lparr>mov_data = d, mov_tipo = ''venda_crypto'', mov_moeda = mo,
                  mov_valor = py_float (Valor_USDT op),
                  mov_saldo_apos = py_float (dec_add (fst st) (Valor_USDT op))\<rparr>])
      (vs @ [Valor_USDT op])"
    using lastro_snoc [OF assms, of "''venda_crypto''" "Valor_USDT op"]
    by (simp add: movimentar_def)
  show ?thesis
  proof (cases "Operacao op = ''compra'' \<or> Operacao op = ''venda''")
    case False
    then have "registrar st op = st" by (simp add: registrar_def Let_def)
    with assms show ?thesis by auto
  next
    case True
    then have "lastro (fst (registrar st op)) (snd (registrar st op)) (vs @ [Valor_USDT op])"
      using dep saq com ven by (auto simp: registrar_def Let_def)
    then show ?thesis ..
  qed
qed

lemma foldl_registrar_lastro:
  "lastro (fst st) (snd st) vs \<Longrightarrow>
   \<exists>vs'. lastro (fst (foldl registrar st rs)) (snd (foldl registrar st rs)) vs'"
proof (induction rs arbitrary: st vs)
  case Nil
  then show ?case by auto
next
  case (Cons r rs)
  from registrar_lastro [OF Cons.prems]
  obtain vs1 where "lastro (fst (registrar st r)) (snd (registrar st r)) vs1" ..
  from Cons.IH [OF this] show ?case by simp
qed

lemma lastro_ultimo:
  assumes "lastro b h vs"
  shows "py_float b = (if h = [] then 0 else mov_saldo_apos (last h))"
proof (cases "h = []")
  case True
  with assms show ?thesis by (simp add: lastro_def py_float_zero)
next
  case False
  define ss where "ss = saldos 0 (zip (map mov_tipo h) vs)"
  from assms have len: "length vs = length h"
    and sa: "map mov_saldo_apos h = map py_float ss" and b: "b = last (0 # ss)"
    by (simp_all add: lastro_def ss_def)
  have "length ss = length h" unfolding ss_def by (simp add: length_saldos len)
  with False have ne: "ss \<noteq> []" by auto
  have "mov_saldo_apos (last h) = last (map mov_saldo_apos h)"
    using False by (simp add: last_map)
  also have "\<dots> = py_float (last ss)" unfolding sa using ne by (simp add: last_map)
  finally show ?thesis using False ne b by simp
qed

text \<open>
  Claim C10, amended. For every list of records, decimal amounts and a decimal balance
  stand behind the history returned by \<open>calcular_saldo_usdt\<close>: starting from 0, each
  decimal balance is the preceding one plus the decimal amount for a deposit or a
  sell-credit and minus it for a withdrawal or a buy-debit; each entry records the float
  of its amount and the float of the balance reached; \<open>saldo_atual\<close> is the float of the
  last decimal balance, which is the \<open>saldo_apos\<close> of the last entry, or 0 when the
  history is empty.
\<close>

theorem historico_lastreado:
  "(\<exists>b vs. lastro b (historico (calcular_saldo_usdt registros)) vs
        \<and> saldo_atual (calcular_saldo_usdt registros) = py_float b)
   \<and> saldo_atual (calcular_saldo_usdt registros) =
       (if historico (calcular_saldo_usdt registros) = [] then 0
        else mov_saldo_apos (last (historico (calcular_saldo_usdt registros))))"
proof -
  define st where "st = foldl registrar (0, []) (ordenar registros)"
  have "lastro (fst (0::rat, [] :: movimento list)) (snd (0::rat, [] :: movimento list)) []"
    by (simp add: lastro_vazio)
  from foldl_registrar_lastro [OF this, of "ordenar registros"]
  obtain vs where l: "lastro (fst st) (snd st) vs" unfolding st_def ..
  have r: "calcular_saldo_usdt registros = \<lparr>saldo_atual = py_float (fst st), historico = snd st\<rparr>"
    by (simp add: calcular_saldo_usdt_def st_def Let_def)
  from l have "\<exists>b vs. lastro b (snd st) vs \<and> py_float (fst st) = py_float b" by blast
  with lastro_ultimo [OF l] show ?thesis unfolding r by simp
qed

end
